theory Spec2Isabelle
  imports Main "HOL-Library.Word"
begin

section \<open>Go strings and the standard-library helpers the code calls\<close>

text \<open>
  Go strings are byte sequences, modelled as \<open>string\<close> (a list of 8-bit characters).
  A Go \<open>error\<close> built with \<open>fmt.Errorf\<close> is modelled by its message; \<open>%w\<close> wrapping
  appends the message of the wrapped error.
\<close>

type_synonym error = string

definition HasSuffix :: "string \<Rightarrow> string \<Rightarrow> bool" where
  "HasSuffix s suffix =
     (length suffix \<le> length s \<and> drop (length s - length suffix) s = suffix)"

definition TrimSuffix :: "string \<Rightarrow> string \<Rightarrow> string" where
  "TrimSuffix s suffix =
     (if HasSuffix s suffix then take (length s - length suffix) s else s)"

text \<open>
  \<open>strings.Split(s, sep)\<close> for a separator of one byte, the only way the code calls it
  (\<open>strings.Split(path, "/")\<close>). The result is never empty: a string without the separator,
  the empty string included, is returned as the single element.
\<close>

fun Split :: "string \<Rightarrow> char \<Rightarrow> string list" where
  "Split [] sep = [[]]"
| "Split (c # cs) sep =
     (if c = sep then [] # Split cs sep
      else (case Split cs sep of [] \<Rightarrow> [[c]] | p # ps \<Rightarrow> (c # p) # ps))"

text \<open>The verb \<open>%d\<close> of \<open>fmt\<close>: a decimal numeral with a minus sign for negative values.\<close>

function fmt_pos :: "int \<Rightarrow> string" where
  "fmt_pos n =
     (if n < 10 then [char_of (48 + n)]
      else fmt_pos (n div 10) @ [char_of (48 + n mod 10)])"
  by pat_completeness auto
termination
  by (relation "measure nat") auto

declare fmt_pos.simps [simp del]

definition fmt_d :: "int \<Rightarrow> string" where
  "fmt_d i = (if i < 0 then CHR ''-'' # fmt_pos (- i) else fmt_pos i)"

text \<open>
  \<open>strconv.ParseInt(s, 10, 64)\<close>: an optional sign \<open>+\<close> or \<open>-\<close>, then at least one
  decimal digit and nothing else; the digits must denote a number below \<open>2\<^sup>6\<^sup>4\<close>
  (\<open>ParseUint\<close>) and the signed value must lie between \<open>-2\<^sup>6\<^sup>3\<close> and
  \<open>2\<^sup>6\<^sup>3 - 1\<close>. Every failure (syntax or range) is a non-nil error, here \<open>None\<close>.
\<close>

definition isDigit :: "char \<Rightarrow> bool" where
  "isDigit c = (48 \<le> (of_char c :: int) \<and> (of_char c :: int) \<le> 57)"

fun digitsValue :: "string \<Rightarrow> int \<Rightarrow> int" where
  "digitsValue [] acc = acc"
| "digitsValue (c # cs) acc = digitsValue cs (acc * 10 + ((of_char c :: int) - 48))"

definition ParseUint :: "string \<Rightarrow> int option" where
  "ParseUint s =
     (if s = [] then None
      else if \<not> list_all isDigit s then None
      else (let n = digitsValue s 0 in if n < 18446744073709551616 then Some n else None))"

definition ParseInt :: "string \<Rightarrow> int option" where
  "ParseInt s0 =
     (case s0 of
        [] \<Rightarrow> None
      | c # cs \<Rightarrow>
          (let neg = (c = CHR ''-'');
               s = (if c = CHR ''+'' \<or> c = CHR ''-'' then cs else s0)
           in case ParseUint s of
                None \<Rightarrow> None
              | Some un \<Rightarrow>
                  if \<not> neg \<and> 9223372036854775808 \<le> un then None
                  else if neg \<and> 9223372036854775808 < un then None
                  else Some (if neg then - un else un)))"

text \<open>
  \<open>textproto.CanonicalMIMEHeaderKey\<close>: a key made of token bytes only gets an upper-case
  first letter and an upper-case letter after each hyphen, all other letters in lower
  case; any other key is returned unchanged.
\<close>

definition validHeaderFieldByte :: "char \<Rightarrow> bool" where
  "validHeaderFieldByte c =
     (let n = (of_char c :: int) in
        (48 \<le> n \<and> n \<le> 57) \<or> (65 \<le> n \<and> n \<le> 90) \<or> (97 \<le> n \<and> n \<le> 122)
        \<or> c \<in> set ''!#$%&*+-.^_`|~'' \<or> n = 39)"

fun canonicalise :: "bool \<Rightarrow> string \<Rightarrow> string" where
  "canonicalise upper [] = []"
| "canonicalise upper (c # cs) =
     (let n = (of_char c :: int);
          c' = (if upper \<and> 97 \<le> n \<and> n \<le> 122 then char_of (n - 32)
                else if \<not> upper \<and> 65 \<le> n \<and> n \<le> 90 then char_of (n + 32)
                else c)
      in c' # canonicalise (c' = CHR ''-'') cs)"

definition CanonicalMIMEHeaderKey :: "string \<Rightarrow> string" where
  "CanonicalMIMEHeaderKey s =
     (if list_all validHeaderFieldByte s then canonicalise True s else s)"

section \<open>HTTP requests and responses\<close>

text \<open>
  A request as the code builds it: method, URL and the headers it sets. A response as the
  code reads it: status code and text, the header map (from canonical key to the list of
  values, empty for an absent header) and the length the HTTP stack parsed (\<open>-1\<close>
  when unknown).
\<close>

record http_Request =
  Method :: string
  URL :: string
  Range :: "string option"
  Authorization :: "string option"
  IfMatch :: "string option"
  Custom :: "(string \<times> string) list"

record http_Response =
  StatusCode :: int
  Status :: string
  Header :: "string \<Rightarrow> string list"
  ContentLength :: int

definition Header_Get :: "(string \<Rightarrow> string list) \<Rightarrow> string \<Rightarrow> string" where
  "Header_Get h key = (case h (CanonicalMIMEHeaderKey key) of [] \<Rightarrow> [] | v # _ \<Rightarrow> v)"

text \<open>
  The environment of one function run: the outcome of the \<open>n\<close>-th call of
  \<open>http.NewRequestWithContext\<close> (an error or none) and of the \<open>n\<close>-th call of
  \<open>httpClient.Do\<close> on the request it is given (a transport error or a response), both
  counted from 0. The decoders of \<open>encoding/base64\<close> and \<open>net/http\<close> and the parser of
  \<open>net/url\<close> are parameters as well.
\<close>

record http_env =
  NewRequestWithContext :: "nat \<Rightarrow> error option"
  Do :: "nat \<Rightarrow> http_Request \<Rightarrow> error + http_Response"

text \<open>What the code reads off a parsed \<open>*url.URL\<close>.\<close>

record url_URL =
  Scheme :: string
  Hostname :: string
  Port :: string
  Path :: string
  RawQuery :: string
  Fragment :: string

record go_stdlib =
  url_Parse :: "string \<Rightarrow> error + url_URL"
  base64_DecodeString :: "string \<Rightarrow> string option"
  http_ParseTime :: "string \<Rightarrow> int option"

section \<open>common/httpUrlParts.go\<close>

record HTTPURLParts =
  parts_Scheme :: string
  parts_Host :: string
  parts_Port :: string
  parts_Path :: string
  parts_Query :: string
  parts_Fragment :: string
  parts_URL :: string

definition NewHTTPURLParts :: "go_stdlib \<Rightarrow> string \<Rightarrow> error + HTTPURLParts" where
  "NewHTTPURLParts std rawURL =
     (if rawURL = [] then Inl ''URL cannot be empty''
      else case url_Parse std rawURL of
             Inl err \<Rightarrow> Inl (''invalid HTTP URL: '' @ err)
           | Inr parsed \<Rightarrow>
               if Scheme parsed \<noteq> ''http'' \<and> Scheme parsed \<noteq> ''https''
               then Inl (''expected http or https, got: '' @ Scheme parsed)
               else Inr \<lparr>parts_Scheme = Scheme parsed,
                         parts_Host = Hostname parsed,
                         parts_Port = Port parsed,
                         parts_Path = Path parsed,
                         parts_Query = RawQuery parsed,
                         parts_Fragment = Fragment parsed,
                         parts_URL = rawURL\<rparr>)"

definition String :: "HTTPURLParts \<Rightarrow> string" where
  "String h = parts_URL h"

definition IsSecure :: "HTTPURLParts \<Rightarrow> bool" where
  "IsSecure h = (parts_Scheme h = ''https'')"

section \<open>cmd/zc\_traverser\_http.go\<close>

text \<open>
  The traverser's fields that hold data. The context, the HTTP client and the enumeration
  counter are behaviour: the client is the environment above. \<open>customHeaders\<close> is a Go
  map, listed here in the order the \<open>range\<close> loop visits it. \<open>lastModified\<close> is an
  instant, 0 for the zero \<open>time.Time\<close>; \<open>contentMD5\<close> is a byte slice, empty when nil.
\<close>

record httpTraverser =
  rawURL :: string
  bearerToken :: string
  customHeaders :: "(string \<times> string) list"
  supportsRange :: bool
  contentLength :: int
  contentMD5 :: string
  etag :: string
  lastModified :: int
  contentType :: string

definition IsDirectory :: "httpTraverser \<Rightarrow> bool \<Rightarrow> bool \<times> error option" where
  "IsDirectory t isSource = (False, None)"

definition headRequest :: "httpTraverser \<Rightarrow> http_Request" where
  "headRequest t =
     \<lparr>Method = ''HEAD'', URL = rawURL t, Range = None,
      Authorization = (if bearerToken t \<noteq> [] then Some (''Bearer '' @ bearerToken t) else None),
      IfMatch = None,
      Custom = customHeaders t\<rparr>"

definition detectCapabilities :: "go_stdlib \<Rightarrow> http_env \<Rightarrow> httpTraverser \<Rightarrow> error + httpTraverser" where
  "detectCapabilities std env t =
     (case NewRequestWithContext env 0 of
        Some err \<Rightarrow> Inl (''failed to create HEAD request: '' @ err)
      | None \<Rightarrow>
         (case Do env 0 (headRequest t) of
            Inl err \<Rightarrow> Inl (''HEAD request failed: '' @ err)
          | Inr resp \<Rightarrow>
              if StatusCode resp \<noteq> 200
              then Inl (''HEAD request returned status '' @ fmt_d (StatusCode resp) @ '': '' @ Status resp)
              else
                (let h = Header resp;
                     t1 = t\<lparr>supportsRange := (Header_Get h ''Accept-Ranges'' = ''bytes'')\<rparr>;
                     t2 = (if Header_Get h ''Content-Length'' \<noteq> []
                           then (case ParseInt (Header_Get h ''Content-Length'') of
                                   Some length' \<Rightarrow> t1\<lparr>contentLength := length'\<rparr>
                                 | None \<Rightarrow> t1)
                           else t1);
                     t3 = (if Header_Get h ''Content-MD5'' \<noteq> []
                           then (case base64_DecodeString std (Header_Get h ''Content-MD5'') of
                                   Some decoded \<Rightarrow> t2\<lparr>contentMD5 := decoded\<rparr>
                                 | None \<Rightarrow> t2)
                           else t2);
                     t4 = t3\<lparr>etag := Header_Get h ''ETag''\<rparr>;
                     t5 = (if Header_Get h ''Last-Modified'' \<noteq> []
                           then (case http_ParseTime std (Header_Get h ''Last-Modified'') of
                                   Some parsedTime \<Rightarrow> t4\<lparr>lastModified := parsedTime\<rparr>
                                 | None \<Rightarrow> t4)
                           else t4)
                 in Inr (t5\<lparr>contentType := Header_Get h ''Content-Type''\<rparr>))))"

text \<open>
  \<open>newHTTPTraverser\<close>: the URL must decompose, then the probe runs on a traverser whose
  capability fields hold Go's zero values. \<open>token\<close> is the access token of the
  credential in the options, empty when there is none.
\<close>

definition newHTTPTraverser :: "go_stdlib \<Rightarrow> http_env \<Rightarrow> string \<Rightarrow> string \<Rightarrow> error + httpTraverser" where
  "newHTTPTraverser std env rawurl token =
     (case NewHTTPURLParts std rawurl of
        Inl err \<Rightarrow> Inl (''invalid HTTP URL: '' @ err)
      | Inr _ \<Rightarrow>
         (case detectCapabilities std env
                 \<lparr>rawURL = rawurl, bearerToken = token, customHeaders = [],
                  supportsRange = False, contentLength = 0, contentMD5 = [], etag = [],
                  lastModified = 0, contentType = []\<rparr> of
            Inl err \<Rightarrow> Inl (''failed to detect HTTP capabilities: '' @ err)
          | Inr t \<Rightarrow> Inr t))"

text \<open>
  The loop of \<open>getFileName\<close> runs \<open>i\<close> from \<open>len(parts) - 1\<close> down to 0;
  \<open>lastNonEmpty parts n\<close> is the loop with \<open>n = i + 1\<close> indices left to visit.
\<close>

primrec lastNonEmpty :: "string list \<Rightarrow> nat \<Rightarrow> string" where
  "lastNonEmpty parts 0 = ''downloaded_file''"
| "lastNonEmpty parts (Suc i) = (if parts ! i \<noteq> [] then parts ! i else lastNonEmpty parts i)"

definition getFileName :: "go_stdlib \<Rightarrow> httpTraverser \<Rightarrow> string" where
  "getFileName std t =
     (case NewHTTPURLParts std (rawURL t) of
        Inl err \<Rightarrow> ''downloaded_file''
      | Inr urlParts \<Rightarrow>
          (let path = TrimSuffix (parts_Path urlParts) ''/'';
               parts = Split path (CHR ''/'')
           in lastNonEmpty parts (length parts)))"

text \<open>
  The specification's wording of the name: the last non-empty segment of the path, the
  segments being what lies between slashes.
\<close>

definition nonEmptySegments :: "string \<Rightarrow> string list" where
  "nonEmptySegments path = filter (\<lambda>s. s \<noteq> []) (Split path (CHR ''/''))"

definition spec_name :: "string \<Rightarrow> string" where
  "spec_name path =
     (if nonEmptySegments path = [] then ''downloaded_file'' else last (nonEmptySegments path))"

section \<open>ste/downloader-http.go\<close>

text \<open>
  Modelled from the spec: the transfer status (\<open>common.TransferStatus\<close>), the transfer
  manager (\<open>IJobPartTransferMgr\<close>), the chunk identifier (\<open>common.ChunkID\<close>) and the
  writer (\<open>common.ChunkedFileWriter\<close>) are declared outside the files at hand. The status
  is the specification's variant; the transfer manager is the state its calls act on
  (\<open>Info()\<close> with the source and its enumerated size, the status that \<open>SetStatus\<close>
  stores, the number of \<open>ReportTransferDone\<close> calls, the errors given to \<open>LogError\<close>);
  the writer is what the chunk task asks of it: the retry budget and the outcome of
  \<open>EnqueueChunk\<close>.
\<close>

datatype TransferStatus = Scheduled | InProgress | Completed | Failed | Cancelled

record jobPartTransferMgr =
  Source :: string
  SourceSize :: int
  transferStatus :: TransferStatus
  transferDoneReports :: nat
  errorLog :: "(string \<times> string \<times> error) list"




record ChunkID =
  Name :: string
  OffsetInFile :: int
  ChunkLength :: int

record ChunkedFileWriter =
  MaxRetryPerDownloadBody :: int
  EnqueueChunk :: "error option"

text \<open>
  The downloader's data fields (the receiver is called \<open>hd\<close> in the source, hence the
  prefix on the names the traverser has too). \<open>expectedMD5\<close> is a byte slice, empty when
  nil.
\<close>

record httpDownloader =
  sourceURL :: string
  hd_bearerToken :: string
  hd_supportsRange :: bool
  hd_contentLength :: int
  expectedMD5 :: string
  hd_etag :: string

definition newHTTPDownloader :: "jobPartTransferMgr \<Rightarrow> httpDownloader" where
  "newHTTPDownloader jptm =
     \<lparr>sourceURL = Source jptm, hd_bearerToken = [], hd_supportsRange = False,
      hd_contentLength = 0, expectedMD5 = [], hd_etag = []\<rparr>"

definition hd_headRequest :: "httpDownloader \<Rightarrow> http_Request" where
  "hd_headRequest dl =
     \<lparr>Method = ''HEAD'', URL = sourceURL dl, Range = None,
      Authorization = (if hd_bearerToken dl \<noteq> [] then Some (''Bearer '' @ hd_bearerToken dl) else None),
      IfMatch = None, Custom = []\<rparr>"

definition hd_detectCapabilities :: "go_stdlib \<Rightarrow> http_env \<Rightarrow> httpDownloader \<Rightarrow> error + httpDownloader" where
  "hd_detectCapabilities std env dl =
     (case NewRequestWithContext env 0 of
        Some err \<Rightarrow> Inl (''failed to create HEAD request: '' @ err)
      | None \<Rightarrow>
         (case Do env 0 (hd_headRequest dl) of
            Inl err \<Rightarrow> Inl (''HEAD request failed: '' @ err)
          | Inr resp \<Rightarrow>
              if StatusCode resp \<noteq> 200
              then Inl (''HEAD request returned status '' @ fmt_d (StatusCode resp) @ '': '' @ Status resp)
              else
                (let h = Header resp;
                     hd1 = dl\<lparr>hd_supportsRange := (Header_Get h ''Accept-Ranges'' = ''bytes'')\<rparr>;
                     hd2 = (if 0 < ContentLength resp
                            then hd1\<lparr>hd_contentLength := ContentLength resp\<rparr> else hd1);
                     hd3 = (if Header_Get h ''Content-MD5'' \<noteq> []
                            then (case base64_DecodeString std (Header_Get h ''Content-MD5'') of
                                    Some decoded \<Rightarrow> hd2\<lparr>expectedMD5 := decoded\<rparr>
                                  | None \<Rightarrow> hd2)
                            else hd2)
                 in Inr (hd3\<lparr>hd_etag := Header_Get h ''ETag''\<rparr>))))"


text \<open>
  The chunk task is the closure that \<open>GenerateDownloadFunc\<close> hands to
  \<open>createDownloadChunkFunc\<close>. What it does to its collaborators is the trace of events
  it returns: status logging, each \<open>httpClient.Do\<close> with the number of the call, warnings,
  closing a response body, sleeping (in nanoseconds), \<open>FailActiveDownload\<close> and
  \<open>EnqueueChunk\<close>. Go's client returns a non-nil \<open>Body\<close> with every response, so the
  test \<open>resp.Body != nil\<close> holds. The task ends by returning or, when it reads the status
  of a nil response, by the nil-dereference panic.
\<close>

datatype WaitReason = HeaderResponse | Body

datatype event =
    EvLogChunkStatus WaitReason
  | EvDo nat http_Request
  | EvLog string
  | EvBodyClose
  | EvSleep int
  | EvFailActiveDownload string error
  | EvEnqueueChunk ChunkID int

datatype completion = Returned | Panicked

text \<open>Signed 64-bit wrap-around, for \<open>int64\<close> arithmetic.\<close>

definition int64 :: "int \<Rightarrow> int" where
  "int64 x = sint (word_of_int x :: 64 word)"

definition getRequest :: "httpDownloader \<Rightarrow> ChunkID \<Rightarrow> int \<Rightarrow> http_Request" where
  "getRequest dl cid len =
     \<lparr>Method = ''GET'', URL = sourceURL dl,
      Range = (if hd_supportsRange dl
               then Some (''bytes='' @ fmt_d (OffsetInFile cid) @ ''-''
                            @ fmt_d (int64 (int64 (OffsetInFile cid + len) - 1)))
               else None),
      Authorization = (if hd_bearerToken dl \<noteq> [] then Some (''Bearer '' @ hd_bearerToken dl) else None),
      IfMatch = (if hd_etag dl \<noteq> [] then Some (hd_etag dl) else None),
      Custom = []\<rparr>"

definition isSuccess :: "error + http_Response \<Rightarrow> bool" where
  "isSuccess r = (case r of Inl err \<Rightarrow> False
                  | Inr resp \<Rightarrow> StatusCode resp = 200 \<or> StatusCode resp = 206)"

definition backoff :: "nat \<Rightarrow> int" where
  "backoff retries =
     (let b = int64 (int retries * 1000000000)
      in if 30 * 1000000000 < b then 30 * 1000000000 else b)"

definition attemptLog :: "int \<Rightarrow> nat \<Rightarrow> error + http_Response \<Rightarrow> event list" where
  "attemptLog maxRetries retries r =
     (case r of
        Inl err \<Rightarrow>
          [EvLog (''HTTP request failed (attempt '' @ fmt_d (int retries + 1) @ ''/''
                    @ fmt_d (maxRetries + 1) @ ''): '' @ err)]
      | Inr resp \<Rightarrow>
          [EvLog (''HTTP request failed with status '' @ fmt_d (StatusCode resp) @ '' (attempt ''
                    @ fmt_d (int retries + 1) @ ''/'' @ fmt_d (maxRetries + 1) @ '')''),
           EvBodyClose])"

text \<open>
  The retry loop \<open>for retries <= maxRetries\<close>. The counter starts at 0, grows by one in
  each pass and never exceeds \<open>maxRetries + 1\<close>: it does not wrap around as long as
  \<open>maxRetries\<close> is below the largest \<open>int\<close>, and is a natural number here. The
  \<open>retries\<close>-th pass makes the \<open>retries\<close>-th call of \<open>Do\<close> and, when it goes on, the
  \<open>retries + 1\<close>-th request. The arguments \<open>resp\<close> and \<open>err\<close>
  are the variables of the same name. The loop is left with their values, or the closure
  returns from inside it.
\<close>

datatype loop_exit = LoopLeft "http_Response option" "error option" | LoopReturned

function retryLoop :: "http_env \<Rightarrow> httpDownloader \<Rightarrow> ChunkID \<Rightarrow> int \<Rightarrow> int \<Rightarrow> nat
    \<Rightarrow> http_Response option \<Rightarrow> error option \<Rightarrow> event list \<times> loop_exit" where
  "retryLoop env dl cid len maxRetries retries resp err =
     (if int retries \<le> maxRetries then
        (let req = getRequest dl cid len; r = Do env retries req in
           if isSuccess r
           then ([EvDo retries req], LoopLeft (case r of Inr rsp \<Rightarrow> Some rsp | Inl e \<Rightarrow> None) None)
           else
             (let resp' = (case r of Inr rsp \<Rightarrow> Some rsp | Inl e \<Rightarrow> None);
                  err' = (case r of Inr rsp \<Rightarrow> None | Inl e \<Rightarrow> Some e);
                  evs = EvDo retries req # attemptLog maxRetries retries r
              in if int (Suc retries) \<le> maxRetries then
                   (case NewRequestWithContext env (Suc retries) of
                      Some e \<Rightarrow>
                        (evs @ [EvSleep (backoff (Suc retries)),
                                EvFailActiveDownload ''Creating HTTP request for retry'' e],
                         LoopReturned)
                    | None \<Rightarrow>
                        (let (evs', ex) = retryLoop env dl cid len maxRetries (Suc retries) resp' None
                         in (evs @ EvSleep (backoff (Suc retries)) # evs', ex)))
                 else
                   (let (evs', ex) = retryLoop env dl cid len maxRetries (Suc retries) resp' err'
                    in (evs @ evs', ex))))
      else ([], LoopLeft resp err))"
  by pat_completeness auto
termination
  by (relation "measure (\<lambda>(env, dl, cid, len, maxRetries, retries, resp, err).
                   nat (maxRetries + 1 - int retries))") auto

declare retryLoop.simps [simp del]

definition downloadChunk :: "http_env \<Rightarrow> ChunkedFileWriter \<Rightarrow> httpDownloader \<Rightarrow> ChunkID \<Rightarrow> int
    \<Rightarrow> event list \<times> completion" where
  "downloadChunk env destWriter dl cid len =
     (case NewRequestWithContext env 0 of
        Some err \<Rightarrow>
          ([EvLogChunkStatus HeaderResponse,
            EvFailActiveDownload ''Creating HTTP request'' err], Returned)
      | None \<Rightarrow>
          if \<not> hd_supportsRange dl \<and> 0 < OffsetInFile cid
          then ([EvLogChunkStatus HeaderResponse,
                 EvFailActiveDownload ''Range request validation''
                   (''server does not support range requests, cannot download chunk at offset ''
                      @ fmt_d (OffsetInFile cid))], Returned)
          else
            (case retryLoop env dl cid len (MaxRetryPerDownloadBody destWriter) 0 None None of
               (evs, LoopReturned) \<Rightarrow> (EvLogChunkStatus HeaderResponse # evs, Returned)
             | (evs, LoopLeft resp err) \<Rightarrow>
                 (case err of
                    Some e \<Rightarrow>
                      (EvLogChunkStatus HeaderResponse # evs
                         @ [EvFailActiveDownload ''Downloading response body'' e], Returned)
                  | None \<Rightarrow>
                      (case resp of
                         None \<Rightarrow> (EvLogChunkStatus HeaderResponse # evs, Panicked)
                       | Some rsp \<Rightarrow>
                           if StatusCode rsp \<noteq> 200 \<and> StatusCode rsp \<noteq> 206
                           then (EvLogChunkStatus HeaderResponse # evs
                                   @ [EvBodyClose,
                                      EvFailActiveDownload ''Downloading response body''
                                        (''unexpected status code: '' @ fmt_d (StatusCode rsp))],
                                 Returned)
                           else (EvLogChunkStatus HeaderResponse # evs
                                   @ [EvLogChunkStatus Body, EvEnqueueChunk cid len]
                                   @ (case EnqueueChunk destWriter of
                                        Some e \<Rightarrow> [EvFailActiveDownload ''Enqueuing chunk'' e]
                                      | None \<Rightarrow> [])
                                   @ [EvBodyClose],
                                 Returned)))))"

text \<open>What a trace holds: the \<open>Do\<close> calls by number, the failures reported, the enqueues.\<close>

fun doCalls :: "event list \<Rightarrow> nat list" where
  "doCalls [] = []"
| "doCalls (EvDo n req # evs) = n # doCalls evs"
| "doCalls (ev # evs) = doCalls evs"

fun failures :: "event list \<Rightarrow> (string \<times> error) list" where
  "failures [] = []"
| "failures (EvFailActiveDownload context err # evs) = (context, err) # failures evs"
| "failures (ev # evs) = failures evs"

fun enqueues :: "event list \<Rightarrow> (ChunkID \<times> int) list" where
  "enqueues [] = []"
| "enqueues (EvEnqueueChunk cid len # evs) = (cid, len) # enqueues evs"
| "enqueues (ev # evs) = enqueues evs"

text \<open>\<open>strings.Contains\<close>, to say what an error message mentions.\<close>

primrec Contains :: "string \<Rightarrow> string \<Rightarrow> bool" where
  "Contains [] substr = (substr = [])"
| "Contains (c # cs) substr = (take (length substr) (c # cs) = substr \<or> Contains cs substr)"


section \<open>Sample collaborators\<close>

text \<open>
  Concrete collaborators for running the functions above. \<open>sample_url_Parse\<close> is
  \<open>url.Parse\<close> on URLs of the unit tests, with the fields those tests assert, and an error
  on every other string; \<open>sample_std\<close> adds decoders that know one Base64 text and no
  date. \<open>headerMap\<close> makes a response header from a list of entries, \<open>okResponse\<close> a
  200 response, \<open>statusResponse\<close> a response without headers, and \<open>serverEnv\<close> a
  client whose requests can always be built and whose \<open>n\<close>-th call is answered by
  \<open>answer n\<close>.
\<close>

definition sample_url_Parse :: "string \<Rightarrow> error + url_URL" where
  "sample_url_Parse u =
     (if u = ''https://api.example.com:8443/files/data.bin?version=2''
      then Inr \<lparr>Scheme = ''https'', Hostname = ''api.example.com'', Port = ''8443'',
                Path = ''/files/data.bin'', RawQuery = ''version=2'', Fragment = []\<rparr>
      else if u = ''https://example.com/path/to/archive.tar.gz''
      then Inr \<lparr>Scheme = ''https'', Hostname = ''example.com'', Port = [],
                Path = ''/path/to/archive.tar.gz'', RawQuery = [], Fragment = []\<rparr>
      else if u = ''https://example.com/''
      then Inr \<lparr>Scheme = ''https'', Hostname = ''example.com'', Port = [],
                Path = ''/'', RawQuery = [], Fragment = []\<rparr>
      else if u = ''ftp://example.com/file''
      then Inr \<lparr>Scheme = ''ftp'', Hostname = ''example.com'', Port = [],
                Path = ''/file'', RawQuery = [], Fragment = []\<rparr>
      else Inl ''parse error'')"

definition sample_std :: go_stdlib where
  "sample_std =
     \<lparr>url_Parse = sample_url_Parse,
      base64_DecodeString = (\<lambda>s. if s = ''dGVzdC1tZDU='' then Some ''test-md5'' else None),
      http_ParseTime = (\<lambda>s. None)\<rparr>"

definition headerMap :: "(string \<times> string list) list \<Rightarrow> string \<Rightarrow> string list" where
  "headerMap kvs k = (case map_of kvs k of None \<Rightarrow> [] | Some vs \<Rightarrow> vs)"

definition okResponse :: "(string \<times> string list) list \<Rightarrow> int \<Rightarrow> http_Response" where
  "okResponse kvs n =
     \<lparr>StatusCode = 200, Status = ''200 OK'', Header = headerMap kvs, ContentLength = n\<rparr>"

definition statusResponse :: "int \<Rightarrow> http_Response" where
  "statusResponse code =
     \<lparr>StatusCode = code, Status = fmt_d code, Header = headerMap [], ContentLength = 0\<rparr>"

definition serverEnv :: "(nat \<Rightarrow> error + http_Response) \<Rightarrow> http_env" where
  "serverEnv answer = \<lparr>NewRequestWithContext = (\<lambda>n. None), Do = (\<lambda>n req. answer n)\<rparr>"

definition sample_traverser :: "string \<Rightarrow> httpTraverser" where
  "sample_traverser u =
     \<lparr>rawURL = u, bearerToken = [], customHeaders = [], supportsRange = False,
      contentLength = 0, contentMD5 = [], etag = [], lastModified = 0, contentType = []\<rparr>"

definition sample_jptm :: "int \<Rightarrow> jobPartTransferMgr" where
  "sample_jptm enumerated =
     \<lparr>Source = ''https://example.com/path/to/archive.tar.gz'', SourceSize = enumerated,
      transferStatus = InProgress, transferDoneReports = 0, errorLog = []\<rparr>"

definition sample_downloader :: "bool \<Rightarrow> httpDownloader" where
  "sample_downloader ranges =
     \<lparr>sourceURL = ''https://example.com/path/to/archive.tar.gz'', hd_bearerToken = [],
      hd_supportsRange = ranges, hd_contentLength = 1000, expectedMD5 = [], hd_etag = []\<rparr>"

definition sample_writer :: "int \<Rightarrow> ChunkedFileWriter" where
  "sample_writer budget = \<lparr>MaxRetryPerDownloadBody = budget, EnqueueChunk = None\<rparr>"

definition sample_chunk :: "int \<Rightarrow> ChunkID" where
  "sample_chunk off = \<lparr>Name = ''archive.tar.gz'', OffsetInFile = off, ChunkLength = 100\<rparr>"

section \<open>The URL decomposer\<close>

text \<open>
  C6. For every input that the decomposer accepts, \<open>String()\<close> on the resulting parts
  returns the input itself.
\<close>

theorem decompose_String_roundtrip:
  "NewHTTPURLParts std u = Inr parts \<Longrightarrow> String parts = u"
  by (auto simp add: NewHTTPURLParts_def String_def split: if_splits sum.splits)

theorem decompose_String_roundtrip_witness:
  "NewHTTPURLParts sample_std ''https://api.example.com:8443/files/data.bin?version=2'' =
     Inr \<lparr>parts_Scheme = ''https'', parts_Host = ''api.example.com'', parts_Port = ''8443'',
          parts_Path = ''/files/data.bin'', parts_Query = ''version=2'', parts_Fragment = [],
          parts_URL = ''https://api.example.com:8443/files/data.bin?version=2''\<rparr>
   \<and> String \<lparr>parts_Scheme = ''https'', parts_Host = ''api.example.com'', parts_Port = ''8443'',
          parts_Path = ''/files/data.bin'', parts_Query = ''version=2'', parts_Fragment = [],
          parts_URL = ''https://api.example.com:8443/files/data.bin?version=2''\<rparr>
       = ''https://api.example.com:8443/files/data.bin?version=2''"
proof -
  have h: "NewHTTPURLParts sample_std ''https://api.example.com:8443/files/data.bin?version=2'' =
     Inr \<lparr>parts_Scheme = ''https'', parts_Host = ''api.example.com'', parts_Port = ''8443'',
          parts_Path = ''/files/data.bin'', parts_Query = ''version=2'', parts_Fragment = [],
          parts_URL = ''https://api.example.com:8443/files/data.bin?version=2''\<rparr>"
    by (simp add: NewHTTPURLParts_def sample_std_def sample_url_Parse_def)
  from decompose_String_roundtrip [OF h] h show ?thesis by simp
qed

text \<open>
  C8. The decomposer returns an error for the empty string and for every input whose
  parsed scheme is neither \<open>http\<close> nor \<open>https\<close>; every other input that parses as a URL
  gives the parts and no error.
\<close>

theorem decompose_errors:
  "isl (NewHTTPURLParts std [])
   \<and> (url_Parse std u = Inr parsed \<and> Scheme parsed \<noteq> ''http'' \<and> Scheme parsed \<noteq> ''https''
        \<longrightarrow> isl (NewHTTPURLParts std u))
   \<and> (u \<noteq> [] \<and> url_Parse std u = Inr parsed
        \<and> (Scheme parsed = ''http'' \<or> Scheme parsed = ''https'')
        \<longrightarrow> NewHTTPURLParts std u =
              Inr \<lparr>parts_Scheme = Scheme parsed, parts_Host = Hostname parsed,
                   parts_Port = Port parsed, parts_Path = Path parsed,
                   parts_Query = RawQuery parsed, parts_Fragment = Fragment parsed,
                   parts_URL = u\<rparr>)"
  by (auto simp add: NewHTTPURLParts_def)

theorem decompose_errors_witness:
  "isl (NewHTTPURLParts sample_std [])
   \<and> url_Parse sample_std ''ftp://example.com/file'' =
        Inr \<lparr>Scheme = ''ftp'', Hostname = ''example.com'', Port = [],
             Path = ''/file'', RawQuery = [], Fragment = []\<rparr>
   \<and> isl (NewHTTPURLParts sample_std ''ftp://example.com/file'')
   \<and> url_Parse sample_std ''https://example.com/'' =
        Inr \<lparr>Scheme = ''https'', Hostname = ''example.com'', Port = [],
             Path = ''/'', RawQuery = [], Fragment = []\<rparr>
   \<and> NewHTTPURLParts sample_std ''https://example.com/'' =
        Inr \<lparr>parts_Scheme = ''https'', parts_Host = ''example.com'', parts_Port = [],
             parts_Path = ''/'', parts_Query = [], parts_Fragment = [],
             parts_URL = ''https://example.com/''\<rparr>"
proof -
  have ftp: "url_Parse sample_std ''ftp://example.com/file'' =
        Inr \<lparr>Scheme = ''ftp'', Hostname = ''example.com'', Port = [],
             Path = ''/file'', RawQuery = [], Fragment = []\<rparr>"
    by (simp add: sample_std_def sample_url_Parse_def)
  have https: "url_Parse sample_std ''https://example.com/'' =
        Inr \<lparr>Scheme = ''https'', Hostname = ''example.com'', Port = [],
             Path = ''/'', RawQuery = [], Fragment = []\<rparr>"
    by (simp add: sample_std_def sample_url_Parse_def)
  from decompose_errors [of sample_std "''ftp://example.com/file''"
         "\<lparr>Scheme = ''ftp'', Hostname = ''example.com'', Port = [],
           Path = ''/file'', RawQuery = [], Fragment = []\<rparr>"] ftp
  have a: "isl (NewHTTPURLParts sample_std [])"
    and b: "isl (NewHTTPURLParts sample_std ''ftp://example.com/file'')"
    by simp_all
  from decompose_errors [of sample_std "''https://example.com/''"
         "\<lparr>Scheme = ''https'', Hostname = ''example.com'', Port = [],
           Path = ''/'', RawQuery = [], Fragment = []\<rparr>"] https
  have c: "NewHTTPURLParts sample_std ''https://example.com/'' =
        Inr \<lparr>parts_Scheme = ''https'', parts_Host = ''example.com'', parts_Port = [],
             parts_Path = ''/'', parts_Query = [], parts_Fragment = [],
             parts_URL = ''https://example.com/''\<rparr>"
    by simp
  from a b c ftp https show ?thesis by simp
qed

section \<open>The traverser\<close>

text \<open>
  C10. For every HTTP traverser and both values of \<open>isSource\<close>, \<open>IsDirectory\<close> returns
  false with a nil error.
\<close>

theorem IsDirectory_false_nil: "IsDirectory t isSource = (False, None)"
  by (simp add: IsDirectory_def)

subsection \<open>The file name\<close>

lemma Split_not_Nil: "Split s c \<noteq> []"
  by (induction s) (auto split: list.splits)

lemma Split_snoc: "Split (s @ [c]) c = Split s c @ [[]]"
  by (induction s) (auto split: list.splits simp: Split_not_Nil)

lemma lastNonEmpty_take:
  "n \<le> length ps \<Longrightarrow>
   lastNonEmpty ps n =
     (if filter (\<lambda>s. s \<noteq> []) (take n ps) = [] then ''downloaded_file''
      else last (filter (\<lambda>s. s \<noteq> []) (take n ps)))"
  by (induction n) (auto simp add: take_Suc_conv_app_nth)

lemma TrimSuffix_slash:
  "TrimSuffix p ''/'' = (if p \<noteq> [] \<and> last p = CHR ''/'' then butlast p else p)"
proof (cases p rule: rev_cases)
  case Nil
  then show ?thesis by (simp add: TrimSuffix_def HasSuffix_def)
next
  case (snoc q c)
  then show ?thesis by (auto simp add: TrimSuffix_def HasSuffix_def)
qed

lemma segments_TrimSuffix:
  "filter (\<lambda>s. s \<noteq> []) (Split (TrimSuffix p ''/'') (CHR ''/'')) = nonEmptySegments p"
proof (cases "p \<noteq> [] \<and> last p = CHR ''/''")
  case True
  then obtain q where "p = q @ ''/''"
    by (metis append_butlast_last_id)
  then show ?thesis
    by (simp add: TrimSuffix_slash nonEmptySegments_def Split_snoc)
next
  case False
  then show ?thesis
    by (auto simp add: TrimSuffix_slash nonEmptySegments_def)
qed

lemma detectCapabilities_rawURL:
  "detectCapabilities std env t = Inr t' \<Longrightarrow> rawURL t' = rawURL t"
  by (auto simp add: detectCapabilities_def Let_def split: option.splits sum.splits if_splits)

lemma newHTTPTraverser_rawURL:
  "newHTTPTraverser std env u token = Inr t \<Longrightarrow>
   rawURL t = u \<and> (\<exists>urlParts. NewHTTPURLParts std u = Inr urlParts)"
  by (auto simp add: newHTTPTraverser_def split: sum.splits dest!: detectCapabilities_rawURL)

text \<open>
  C7. The name the traverser gives the resource is the last non-empty segment of the
  URL's path, and the literal \<open>downloaded_file\<close> when the path has no non-empty segment.
  This holds of \<open>getFileName\<close> for every URL that decomposes, and so for every traverser
  that \<open>newHTTPTraverser\<close> returns.
\<close>

theorem getFileName_last_segment:
  "(NewHTTPURLParts std (rawURL t) = Inr urlParts \<longrightarrow>
      getFileName std t = spec_name (parts_Path urlParts))
   \<and> (newHTTPTraverser std env u token = Inr t' \<longrightarrow>
      (\<exists>parts. NewHTTPURLParts std u = Inr parts
         \<and> getFileName std t' = spec_name (parts_Path parts)))"
proof -
  have name: "getFileName std x = spec_name (parts_Path p)"
    if "NewHTTPURLParts std (rawURL x) = Inr p" for x p
    using that
    by (simp add: getFileName_def Let_def lastNonEmpty_take segments_TrimSuffix spec_name_def)
  show ?thesis
    using name newHTTPTraverser_rawURL [of std env u token t'] by auto
qed

theorem getFileName_last_segment_witness:
  "getFileName sample_std (sample_traverser ''https://example.com/path/to/archive.tar.gz'')
     = ''archive.tar.gz''
   \<and> getFileName sample_std (sample_traverser ''https://example.com/'') = ''downloaded_file''
   \<and> newHTTPTraverser sample_std (serverEnv (\<lambda>n. Inr (okResponse [] (- 1))))
         ''https://example.com/path/to/archive.tar.gz'' []
       = Inr (sample_traverser ''https://example.com/path/to/archive.tar.gz'')"
proof -
  let ?A = "\<lparr>parts_Scheme = ''https'', parts_Host = ''example.com'', parts_Port = [],
             parts_Path = ''/path/to/archive.tar.gz'', parts_Query = [], parts_Fragment = [],
             parts_URL = ''https://example.com/path/to/archive.tar.gz''\<rparr>"
  let ?B = "\<lparr>parts_Scheme = ''https'', parts_Host = ''example.com'', parts_Port = [],
             parts_Path = ''/'', parts_Query = [], parts_Fragment = [],
             parts_URL = ''https://example.com/''\<rparr>"
  let ?E = "serverEnv (\<lambda>n. Inr (okResponse [] (- 1)))"
  have a: "NewHTTPURLParts sample_std
             (rawURL (sample_traverser ''https://example.com/path/to/archive.tar.gz'')) = Inr ?A"
    by (simp add: NewHTTPURLParts_def sample_std_def sample_url_Parse_def sample_traverser_def)
  have b: "NewHTTPURLParts sample_std (rawURL (sample_traverser ''https://example.com/'')) = Inr ?B"
    by (simp add: NewHTTPURLParts_def sample_std_def sample_url_Parse_def sample_traverser_def)
  have c: "newHTTPTraverser sample_std ?E ''https://example.com/path/to/archive.tar.gz'' []
             = Inr (sample_traverser ''https://example.com/path/to/archive.tar.gz'')"
    by (simp add: newHTTPTraverser_def NewHTTPURLParts_def sample_url_Parse_def
          detectCapabilities_def serverEnv_def okResponse_def headerMap_def Header_Get_def
          sample_traverser_def sample_std_def)
  have sa: "spec_name ''/path/to/archive.tar.gz'' = ''archive.tar.gz''"
    by (simp add: spec_name_def nonEmptySegments_def)
  have sb: "spec_name ''/'' = ''downloaded_file''"
    by (simp add: spec_name_def nonEmptySegments_def)
  from getFileName_last_segment
         [of sample_std "sample_traverser ''https://example.com/path/to/archive.tar.gz''" ?A
             ?E "''https://example.com/path/to/archive.tar.gz''" "[]"
             "sample_traverser ''https://example.com/path/to/archive.tar.gz''"] a c sa
  have 1: "getFileName sample_std (sample_traverser ''https://example.com/path/to/archive.tar.gz'')
             = ''archive.tar.gz''"
    by simp
  from getFileName_last_segment
         [of sample_std "sample_traverser ''https://example.com/''" ?B
             ?E "''https://example.com/path/to/archive.tar.gz''" "[]"
             "sample_traverser ''https://example.com/path/to/archive.tar.gz''"] b sb
  have 2: "getFileName sample_std (sample_traverser ''https://example.com/'') = ''downloaded_file''"
    by simp
  from 1 2 c show ?thesis by simp
qed

subsection \<open>The probe\<close>

lemma canonical_Accept_Ranges: "CanonicalMIMEHeaderKey ''Accept-Ranges'' = ''Accept-Ranges''"
  by code_simp

lemma canonical_Content_Length: "CanonicalMIMEHeaderKey ''Content-Length'' = ''Content-Length''"
  by code_simp

lemma canonical_Content_MD5: "CanonicalMIMEHeaderKey ''Content-MD5'' = ''Content-Md5''"
  by code_simp

lemma canonical_ETag: "CanonicalMIMEHeaderKey ''ETag'' = ''Etag''"
  by code_simp

lemma canonical_Last_Modified: "CanonicalMIMEHeaderKey ''Last-Modified'' = ''Last-Modified''"
  by code_simp

lemma canonical_Content_Type: "CanonicalMIMEHeaderKey ''Content-Type'' = ''Content-Type''"
  by code_simp

lemmas canonical_keys = canonical_Accept_Ranges canonical_Content_Length canonical_Content_MD5
  canonical_ETag canonical_Last_Modified canonical_Content_Type

lemma detectCapabilities_supportsRange:
  "detectCapabilities std env t = Inr t' \<Longrightarrow>
   \<exists>resp. Do env 0 (headRequest t) = Inr resp \<and>
      supportsRange t' = (Header_Get (Header resp) ''Accept-Ranges'' = ''bytes'')"
  by (auto simp add: detectCapabilities_def Let_def split: option.splits sum.splits if_splits)

lemma hd_detectCapabilities_supportsRange:
  "hd_detectCapabilities std env dl = Inr dl' \<Longrightarrow>
   \<exists>resp. Do env 0 (hd_headRequest dl) = Inr resp \<and>
      hd_supportsRange dl' = (Header_Get (Header resp) ''Accept-Ranges'' = ''bytes'')"
  by (auto simp add: hd_detectCapabilities_def Let_def split: option.splits sum.splits if_splits)

text \<open>
  C5. After a successful probe, by the traverser or by the downloader, \<open>supportsRange\<close>
  is true exactly when the response has an \<open>Accept-Ranges\<close> header whose (first) value is
  the string \<open>bytes\<close>; any other value and an absent header give false.
\<close>

theorem supportsRange_iff_bytes:
  "(detectCapabilities std env t = Inr t' \<longrightarrow>
      (\<exists>resp. Do env 0 (headRequest t) = Inr resp \<and>
         supportsRange t' =
           (case Header resp ''Accept-Ranges'' of [] \<Rightarrow> False | v # _ \<Rightarrow> v = ''bytes'')))
   \<and> (hd_detectCapabilities std env dl = Inr dl' \<longrightarrow>
      (\<exists>resp. Do env 0 (hd_headRequest dl) = Inr resp \<and>
         hd_supportsRange dl' =
           (case Header resp ''Accept-Ranges'' of [] \<Rightarrow> False | v # _ \<Rightarrow> v = ''bytes'')))"
proof -
  have get: "(Header_Get h ''Accept-Ranges'' = ''bytes'') =
      (case h ''Accept-Ranges'' of [] \<Rightarrow> False | v # _ \<Rightarrow> v = ''bytes'')" for h
    by (simp add: Header_Get_def canonical_Accept_Ranges split: list.splits)
  show ?thesis
    using detectCapabilities_supportsRange [of std env t t']
      hd_detectCapabilities_supportsRange [of std env dl dl']
    by (auto simp add: get)
qed

lemma ParseInt_1000: "ParseInt ''1000'' = Some 1000"
  by code_simp

lemma ParseInt_minus_5: "ParseInt ''-5'' = Some (- 5)"
  by code_simp

theorem supportsRange_iff_bytes_witness:
  "detectCapabilities sample_std
       (serverEnv (\<lambda>n. Inr (okResponse [(''Accept-Ranges'', [''bytes'']),
                                          (''Content-Length'', [''1000''])] 1000)))
       (sample_traverser ''https://example.com/path/to/archive.tar.gz'')
     = Inr ((sample_traverser ''https://example.com/path/to/archive.tar.gz'')
              \<lparr>supportsRange := True, contentLength := 1000\<rparr>)
   \<and> hd_detectCapabilities sample_std
       (serverEnv (\<lambda>n. Inr (okResponse [(''Accept-Ranges'', [''none''])] 1000)))
       (newHTTPDownloader (sample_jptm 1000))
     = Inr ((newHTTPDownloader (sample_jptm 1000))
              \<lparr>hd_supportsRange := False, hd_contentLength := 1000\<rparr>)"
proof -
  let ?E1 = "serverEnv (\<lambda>n. Inr (okResponse [(''Accept-Ranges'', [''bytes'']),
                                              (''Content-Length'', [''1000''])] 1000))"
  let ?T = "sample_traverser ''https://example.com/path/to/archive.tar.gz''"
  let ?E2 = "serverEnv (\<lambda>n. Inr (okResponse [(''Accept-Ranges'', [''none''])] 1000))"
  let ?D = "newHTTPDownloader (sample_jptm 1000)"
  have t: "detectCapabilities sample_std ?E1 ?T
             = Inr (?T\<lparr>supportsRange := True, contentLength := 1000\<rparr>)"
    by (simp add: detectCapabilities_def serverEnv_def okResponse_def headerMap_def
          Header_Get_def canonical_keys ParseInt_1000 sample_traverser_def sample_std_def)
  have d: "hd_detectCapabilities sample_std ?E2 ?D
             = Inr (?D\<lparr>hd_supportsRange := False, hd_contentLength := 1000\<rparr>)"
    by (simp add: hd_detectCapabilities_def serverEnv_def okResponse_def headerMap_def
          Header_Get_def canonical_keys newHTTPDownloader_def sample_jptm_def sample_std_def)
  from supportsRange_iff_bytes [of sample_std ?E1 ?T
         "?T\<lparr>supportsRange := True, contentLength := 1000\<rparr>" ?D
         "?D\<lparr>hd_supportsRange := False, hd_contentLength := 1000\<rparr>"] t
  have "supportsRange (?T\<lparr>supportsRange := True, contentLength := 1000\<rparr>) =
          (case headerMap [(''Accept-Ranges'', [''bytes'']), (''Content-Length'', [''1000''])]
                  ''Accept-Ranges'' of [] \<Rightarrow> False | v # _ \<Rightarrow> v = ''bytes'')"
    by (auto simp add: serverEnv_def okResponse_def)
  moreover
  from supportsRange_iff_bytes [of sample_std ?E2 ?T
         "?T\<lparr>supportsRange := True, contentLength := 1000\<rparr>" ?D
         "?D\<lparr>hd_supportsRange := False, hd_contentLength := 1000\<rparr>"] d
  have "hd_supportsRange (?D\<lparr>hd_supportsRange := False, hd_contentLength := 1000\<rparr>) =
          (case headerMap [(''Accept-Ranges'', [''none''])] ''Accept-Ranges'' of
             [] \<Rightarrow> False | v # _ \<Rightarrow> v = ''bytes'')"
    by (auto simp add: serverEnv_def okResponse_def)
  ultimately show ?thesis using t d by simp
qed

text \<open>
  The size the traverser extracts: the value \<open>strconv.ParseInt\<close> gives for a non-empty
  \<open>Content-Length\<close> header, the sign included, and 0 when the header is absent or does
  not parse.
\<close>

lemma probe_size_is_ParseInt:
  "newHTTPTraverser std env u token = Inr t \<Longrightarrow>
   \<exists>resp. Do env 0 (headRequest (sample_traverser u\<lparr>bearerToken := token\<rparr>)) = Inr resp \<and>
      contentLength t =
        (if Header_Get (Header resp) ''Content-Length'' = [] then 0
         else case ParseInt (Header_Get (Header resp) ''Content-Length'') of
                Some n \<Rightarrow> n | None \<Rightarrow> 0)"
  by (auto simp add: newHTTPTraverser_def detectCapabilities_def sample_traverser_def Let_def
        split: option.splits sum.splits if_splits)

text \<open>
  C4. The size extracted from a probe response is the non-negative integer in the
  \<open>Content-Length\<close> header, and 0 when the header is absent or does not parse; it is
  never negative. The traverser does not keep to this: a response whose header reads
  \<open>-5\<close> makes \<open>newHTTPTraverser\<close> return a traverser whose size is \<open>-5\<close>.
\<close>

theorem probe_negative_content_length:
  "newHTTPTraverser sample_std
       (serverEnv (\<lambda>n. Inr (okResponse [(''Content-Length'', [''-5''])] (- 1))))
       ''https://example.com/path/to/archive.tar.gz'' []
     = Inr ((sample_traverser ''https://example.com/path/to/archive.tar.gz'')
              \<lparr>contentLength := - 5\<rparr>)"
  by (simp add: newHTTPTraverser_def NewHTTPURLParts_def sample_url_Parse_def
       detectCapabilities_def serverEnv_def okResponse_def headerMap_def Header_Get_def
       canonical_keys ParseInt_minus_5 sample_traverser_def sample_std_def)

section \<open>The downloader's prologue\<close>







section \<open>The chunk task\<close>

lemma doCalls_append: "doCalls (xs @ ys) = doCalls xs @ doCalls ys"
  by (induction xs rule: doCalls.induct) simp_all

lemma doCalls_attemptLog: "doCalls (attemptLog m r x) = []"
  by (simp add: attemptLog_def split: sum.splits)

lemma Contains_Nil: "Contains s []"
  by (cases s) simp_all

lemma Contains_prefix: "Contains (p @ s) p"
  by (cases p) (simp_all add: Contains_Nil)

lemma fmt_d_100: "fmt_d 100 = ''100''"
  by code_simp

text \<open>
  The request is built before anything else is looked at: when that fails, the task
  reports the construction error and returns, whatever the server supports.
\<close>

lemma request_error_fails_chunk:
  "NewRequestWithContext env 0 = Some err \<Longrightarrow>
   downloadChunk env destWriter dl cid len =
     ([EvLogChunkStatus HeaderResponse, EvFailActiveDownload ''Creating HTTP request'' err],
      Returned)"
  by (simp add: downloadChunk_def)

text \<open>
  C3. A chunk task for an offset above 0 on a server without range support fails the
  active download with an error that mentions that the server does not support range
  requests, and performs no HTTP request and no enqueue for the chunk. The request object
  is taken to be buildable, as it is for the URL that the probes have already made their
  requests from.
\<close>

theorem no_range_support_fails_chunk:
  assumes "\<not> hd_supportsRange dl" and "0 < OffsetInFile cid"
    and "NewRequestWithContext env 0 = None"
  shows "downloadChunk env destWriter dl cid len =
           ([EvLogChunkStatus HeaderResponse,
             EvFailActiveDownload ''Range request validation''
               (''server does not support range requests, cannot download chunk at offset ''
                  @ fmt_d (OffsetInFile cid))], Returned)
       \<and> doCalls (fst (downloadChunk env destWriter dl cid len)) = []
       \<and> enqueues (fst (downloadChunk env destWriter dl cid len)) = []
       \<and> failures (fst (downloadChunk env destWriter dl cid len)) =
           [(''Range request validation'',
             ''server does not support range requests, cannot download chunk at offset ''
               @ fmt_d (OffsetInFile cid))]
       \<and> Contains (''server does not support range requests, cannot download chunk at offset ''
                      @ fmt_d (OffsetInFile cid))
            ''server does not support range requests''"
proof -
  have "Contains (''server does not support range requests''
                    @ ('', cannot download chunk at offset '' @ fmt_d (OffsetInFile cid)))
            ''server does not support range requests''"
    by (rule Contains_prefix)
  then show ?thesis using assms
    by (simp add: downloadChunk_def)
qed

theorem no_range_support_fails_chunk_witness:
  "\<not> hd_supportsRange (sample_downloader False)
   \<and> 0 < OffsetInFile (sample_chunk 100)
   \<and> NewRequestWithContext (serverEnv (\<lambda>n. Inr (okResponse [] 1000))) 0 = None
   \<and> doCalls (fst (downloadChunk (serverEnv (\<lambda>n. Inr (okResponse [] 1000))) (sample_writer 5)
                    (sample_downloader False) (sample_chunk 100) 100)) = []
   \<and> enqueues (fst (downloadChunk (serverEnv (\<lambda>n. Inr (okResponse [] 1000))) (sample_writer 5)
                    (sample_downloader False) (sample_chunk 100) 100)) = []
   \<and> failures (fst (downloadChunk (serverEnv (\<lambda>n. Inr (okResponse [] 1000))) (sample_writer 5)
                    (sample_downloader False) (sample_chunk 100) 100))
       = [(''Range request validation'',
           ''server does not support range requests, cannot download chunk at offset 100'')]"
proof -
  have a: "\<not> hd_supportsRange (sample_downloader False)"
    by (simp add: sample_downloader_def)
  have b: "0 < OffsetInFile (sample_chunk 100)"
    by (simp add: sample_chunk_def)
  have c: "NewRequestWithContext (serverEnv (\<lambda>n. Inr (okResponse [] 1000))) 0 = None"
    by (simp add: serverEnv_def)
  from no_range_support_fails_chunk [OF a b c, of "sample_writer 5" 100] a b c
  show ?thesis
    by (simp add: sample_chunk_def fmt_d_100)
qed

subsection \<open>The retry loop\<close>

lemma retryLoop_doCalls:
  "\<exists>n. doCalls (fst (retryLoop env dl cid len m r resp err)) = [r..<r + n]
       \<and> int n \<le> max 0 (m + 1 - int r)
       \<and> (\<forall>k. r \<le> k \<and> Suc k < r + n \<longrightarrow> \<not> isSuccess (Do env k (getRequest dl cid len)))"
proof (induction env dl cid len m r resp err rule: retryLoop.induct)
  case (1 env dl cid len m r resp err)
  let ?req = "getRequest dl cid len"
  let ?R = "retryLoop env dl cid len m r resp err"
  show ?case
  proof (cases "int r \<le> m")
    case False
    then have "doCalls (fst ?R) = [r..<r + 0]"
      by (subst retryLoop.simps) simp
    then show ?thesis by (intro exI [of _ 0]) auto
  next
    case inloop: True
    show ?thesis
    proof (cases "isSuccess (Do env r ?req)")
      case True
      with inloop have "doCalls (fst ?R) = [r..<r + 1]"
        by (subst retryLoop.simps) (simp add: Let_def)
      with inloop show ?thesis by (intro exI [of _ 1]) auto
    next
      case failed: False
      let ?resp' = "case Do env r ?req of Inr rsp \<Rightarrow> Some rsp | Inl e \<Rightarrow> None"
      let ?err' = "case Do env r ?req of Inr rsp \<Rightarrow> None | Inl e \<Rightarrow> Some e"
      show ?thesis
      proof (cases "int (Suc r) \<le> m")
        case again: True
        show ?thesis
        proof (cases "NewRequestWithContext env (Suc r)")
          case (Some e)
          with inloop failed again have "doCalls (fst ?R) = [r..<r + 1]"
            by (subst retryLoop.simps) (simp add: Let_def doCalls_append doCalls_attemptLog)
          with inloop show ?thesis by (intro exI [of _ 1]) auto
        next
          case None
          from "1.IH"(1) [OF inloop refl refl failed refl refl refl again None]
          obtain n where
            n: "doCalls (fst (retryLoop env dl cid len m (Suc r) ?resp' None)) = [Suc r..<Suc r + n]"
            and bound: "int n \<le> max 0 (m + 1 - int (Suc r))"
            and fails: "\<forall>k. Suc r \<le> k \<and> Suc k < Suc r + n \<longrightarrow> \<not> isSuccess (Do env k ?req)"
            by blast
          from inloop failed again None
          have "fst ?R = (EvDo r ?req # attemptLog m r (Do env r ?req))
                  @ EvSleep (backoff (Suc r)) # fst (retryLoop env dl cid len m (Suc r) ?resp' None)"
            by (subst retryLoop.simps) (simp add: Let_def case_prod_beta)
          then have "doCalls (fst ?R) = r # doCalls (fst (retryLoop env dl cid len m (Suc r) ?resp' None))"
            by (simp add: doCalls_append doCalls_attemptLog)
          then have "doCalls (fst ?R) = r # [Suc r..<Suc r + n]"
            by (simp only: n)
          then have calls: "doCalls (fst ?R) = [r..<r + Suc n]"
            by (simp add: upt_conv_Cons)
          from fails failed have "\<forall>k. r \<le> k \<and> Suc k < r + Suc n \<longrightarrow> \<not> isSuccess (Do env k ?req)"
            by (metis Suc_leI add_Suc add_Suc_right le_neq_implies_less)
          with calls bound inloop show ?thesis
            by (intro exI [of _ "Suc n"]) simp
        qed
      next
        case last: False
        from "1.IH"(2) [OF inloop refl refl failed refl refl refl last]
        obtain n where
          n: "doCalls (fst (retryLoop env dl cid len m (Suc r) ?resp' ?err')) = [Suc r..<Suc r + n]"
          and bound: "int n \<le> max 0 (m + 1 - int (Suc r))"
          by blast
        from bound last have "n = 0" by simp
        from inloop failed last
        have "fst ?R = (EvDo r ?req # attemptLog m r (Do env r ?req))
                @ fst (retryLoop env dl cid len m (Suc r) ?resp' ?err')"
          by (subst retryLoop.simps) (simp add: Let_def case_prod_beta)
        then have "doCalls (fst ?R) = r # doCalls (fst (retryLoop env dl cid len m (Suc r) ?resp' ?err'))"
          by (simp add: doCalls_append doCalls_attemptLog)
        with n \<open>n = 0\<close> have "doCalls (fst ?R) = [r..<r + 1]"
          by simp
        with inloop show ?thesis by (intro exI [of _ 1]) auto
      qed
    qed
  qed
qed

text \<open>
  C9. The retry loop of a chunk task ends (\<open>retryLoop\<close> is a total function: the distance
  of the counter to \<open>maxRetries + 1\<close> shrinks in every pass) after at most
  \<open>MaxRetryPerDownloadBody() + 1\<close> requests. The requests are the calls number
  \<open>0, 1, \<dots>, n - 1\<close> in this order, one for each value of the counter; every request that is
  followed by another one had failed, so the loop stops at the first 200 or 206. A negative
  budget allows no request at all. The budget is taken below the largest \<open>int\<close>, where
  the counter of the source does not wrap around.
\<close>

theorem retry_loop_attempts_bounded:
  assumes "MaxRetryPerDownloadBody destWriter < 9223372036854775807"
  shows "\<exists>n. doCalls (fst (downloadChunk env destWriter dl cid len)) = [0..<n]
       \<and> int n \<le> max 0 (MaxRetryPerDownloadBody destWriter + 1)
       \<and> (\<forall>k. Suc k < n \<longrightarrow> \<not> isSuccess (Do env k (getRequest dl cid len)))"
proof -
  let ?m = "MaxRetryPerDownloadBody destWriter"
  obtain evs ex where L: "retryLoop env dl cid len ?m 0 None None = (evs, ex)"
    by (cases "retryLoop env dl cid len ?m 0 None None") blast
  from retryLoop_doCalls [of env dl cid len ?m 0 None None] L
  obtain n where n: "doCalls evs = [0..<n]" and bound: "int n \<le> max 0 (?m + 1)"
    and fails: "\<forall>k. Suc k < n \<longrightarrow> \<not> isSuccess (Do env k (getRequest dl cid len))"
    by auto
  from L have "doCalls (fst (downloadChunk env destWriter dl cid len)) = []
      \<or> doCalls (fst (downloadChunk env destWriter dl cid len)) = doCalls evs"
    by (auto simp add: downloadChunk_def doCalls_append split: option.splits loop_exit.splits)
  then show ?thesis
  proof
    assume "doCalls (fst (downloadChunk env destWriter dl cid len)) = []"
    then show ?thesis by (intro exI [of _ 0]) simp
  next
    assume "doCalls (fst (downloadChunk env destWriter dl cid len)) = doCalls evs"
    with n bound fails show ?thesis by (intro exI [of _ n]) simp
  qed
qed

theorem retry_loop_attempts_bounded_witness:
  "MaxRetryPerDownloadBody (sample_writer 5) < 9223372036854775807
   \<and> doCalls (fst (downloadChunk
        (serverEnv (\<lambda>n. if n < 2 then Inr (statusResponse 500) else Inr (statusResponse 206)))
        (sample_writer 5) (sample_downloader True) (sample_chunk 0) 100)) = [0, 1, 2]
   \<and> \<not> isSuccess (Do (serverEnv (\<lambda>n. if n < 2 then Inr (statusResponse 500)
                                       else Inr (statusResponse 206)))
                      0 (getRequest (sample_downloader True) (sample_chunk 0) 100))
   \<and> \<not> isSuccess (Do (serverEnv (\<lambda>n. if n < 2 then Inr (statusResponse 500)
                                       else Inr (statusResponse 206)))
                      1 (getRequest (sample_downloader True) (sample_chunk 0) 100))"
proof -
  let ?E = "serverEnv (\<lambda>n. if n < 2 then Inr (statusResponse 500) else Inr (statusResponse 206))"
  let ?req = "getRequest (sample_downloader True) (sample_chunk 0) 100"
  have budget: "MaxRetryPerDownloadBody (sample_writer 5) < 9223372036854775807"
    by (simp add: sample_writer_def)
  have calls: "doCalls (fst (downloadChunk ?E (sample_writer 5) (sample_downloader True)
                               (sample_chunk 0) 100)) = [0, 1, 2]"
    by code_simp
  from retry_loop_attempts_bounded [OF budget, of ?E "sample_downloader True" "sample_chunk 0" 100]
  obtain n where n: "doCalls (fst (downloadChunk ?E (sample_writer 5) (sample_downloader True)
                               (sample_chunk 0) 100)) = [0..<n]"
    and fails: "\<forall>k. Suc k < n \<longrightarrow> \<not> isSuccess (Do ?E k ?req)"
    by blast
  from n calls have "length [0..<n] = length [0, 1, 2 :: nat]"
    by simp
  then have "n = 3" by simp
  with fails have "\<not> isSuccess (Do ?E 0 ?req)" and "\<not> isSuccess (Do ?E 1 ?req)"
    by simp_all
  with budget calls show ?thesis by simp
qed

lemma failures_append: "failures (xs @ ys) = failures xs @ failures ys"
  by (induction xs rule: failures.induct) simp_all

lemma enqueues_append: "enqueues (xs @ ys) = enqueues xs @ enqueues ys"
  by (induction xs rule: enqueues.induct) simp_all

lemma failures_attemptLog: "failures (attemptLog m r x) = []"
  by (simp add: attemptLog_def split: sum.splits)

lemma enqueues_attemptLog: "enqueues (attemptLog m r x) = []"
  by (simp add: attemptLog_def split: sum.splits)

text \<open>
  A loop whose requests can all be built and whose calls all fail makes every call up to
  number \<open>maxRetries\<close> and is left with the outcome of the last one.
\<close>

lemma retryLoop_all_fail:
  assumes "\<forall>n. n \<le> nat m \<longrightarrow> NewRequestWithContext env n = None"
    and "\<forall>n. n \<le> nat m \<longrightarrow> \<not> isSuccess (Do env n (getRequest dl cid len))"
    and "int r \<le> m"
  shows "\<exists>evs. retryLoop env dl cid len m r resp err =
            (evs, LoopLeft (case Do env (nat m) (getRequest dl cid len) of
                              Inr rsp \<Rightarrow> Some rsp | Inl e \<Rightarrow> None)
                           (case Do env (nat m) (getRequest dl cid len) of
                              Inr rsp \<Rightarrow> None | Inl e \<Rightarrow> Some e))
          \<and> doCalls evs = [r..<Suc (nat m)] \<and> failures evs = [] \<and> enqueues evs = []"
  using assms
proof (induction env dl cid len m r resp err rule: retryLoop.induct)
  case (1 env dl cid len m r resp err)
  let ?req = "getRequest dl cid len"
  let ?resp' = "case Do env r ?req of Inr rsp \<Rightarrow> Some rsp | Inl e \<Rightarrow> None"
  let ?err' = "case Do env r ?req of Inr rsp \<Rightarrow> None | Inl e \<Rightarrow> Some e"
  from "1.prems" have inloop: "int r \<le> m" and failed: "\<not> isSuccess (Do env r ?req)"
    by simp_all
  show ?case
  proof (cases "int (Suc r) \<le> m")
    case again: True
    with "1.prems" have build: "NewRequestWithContext env (Suc r) = None"
      by simp
    from "1.IH"(1) [OF inloop refl refl failed refl refl refl again build "1.prems"(1,2) again]
    obtain evs where rec: "retryLoop env dl cid len m (Suc r) ?resp' None =
            (evs, LoopLeft (case Do env (nat m) ?req of Inr rsp \<Rightarrow> Some rsp | Inl e \<Rightarrow> None)
                           (case Do env (nat m) ?req of Inr rsp \<Rightarrow> None | Inl e \<Rightarrow> Some e))"
      and evs: "doCalls evs = [Suc r..<Suc (nat m)]" "failures evs = []" "enqueues evs = []"
      by blast
    from inloop failed again build rec
    have step: "retryLoop env dl cid len m r resp err =
        ((EvDo r ?req # attemptLog m r (Do env r ?req)) @ EvSleep (backoff (Suc r)) # evs,
         LoopLeft (case Do env (nat m) ?req of Inr rsp \<Rightarrow> Some rsp | Inl e \<Rightarrow> None)
                  (case Do env (nat m) ?req of Inr rsp \<Rightarrow> None | Inl e \<Rightarrow> Some e))"
      by (subst retryLoop.simps) (simp add: Let_def)
    from inloop have "r \<le> nat m" by linarith
    then have "[r..<Suc (nat m)] = r # [Suc r..<Suc (nat m)]"
      by (simp add: upt_conv_Cons)
    with evs show ?thesis
      unfolding step
      by (simp add: doCalls_append failures_append enqueues_append doCalls_attemptLog
            failures_attemptLog enqueues_attemptLog)
  next
    case last: False
    with inloop have r: "r = nat m" by simp
    from last have "retryLoop env dl cid len m (Suc r) ?resp' ?err' = ([], LoopLeft ?resp' ?err')"
      by (subst retryLoop.simps) simp
    with inloop failed last
    have step: "retryLoop env dl cid len m r resp err =
        (EvDo r ?req # attemptLog m r (Do env r ?req), LoopLeft ?resp' ?err')"
      by (subst retryLoop.simps) (simp add: Let_def)
    show ?thesis
      unfolding step
      by (simp add: r doCalls_attemptLog failures_attemptLog enqueues_attemptLog)
  qed
qed

lemma fmt_d_404: "fmt_d 404 = ''404''"
  by code_simp

text \<open>
  C1, as amended. A 4xx response, 429 or not, is retried like every outcome other than
  200 and 206. A chunk task that passes the range check, whose request can be built each
  time and whose calls are all answered with a 4xx status, calls \<open>Do\<close>
  \<open>MaxRetryPerDownloadBody() + 1\<close> times (for a budget from 0 up to, but not including,
  the largest \<open>int\<close>); only then it fails the active download, with the last status in
  the error, and nothing is enqueued.
\<close>

theorem client_error_is_retried:
  assumes budget: "0 \<le> MaxRetryPerDownloadBody destWriter"
      "MaxRetryPerDownloadBody destWriter < 9223372036854775807"
    and ranges: "hd_supportsRange dl \<or> OffsetInFile cid \<le> 0"
    and build: "\<forall>n. n \<le> nat (MaxRetryPerDownloadBody destWriter)
                  \<longrightarrow> NewRequestWithContext env n = None"
    and answers: "\<forall>n. n \<le> nat (MaxRetryPerDownloadBody destWriter)
                  \<longrightarrow> (\<exists>resp. Do env n (getRequest dl cid len) = Inr resp
                         \<and> 400 \<le> StatusCode resp \<and> StatusCode resp \<le> 499)"
  shows "doCalls (fst (downloadChunk env destWriter dl cid len))
           = [0..<Suc (nat (MaxRetryPerDownloadBody destWriter))]
       \<and> enqueues (fst (downloadChunk env destWriter dl cid len)) = []
       \<and> snd (downloadChunk env destWriter dl cid len) = Returned
       \<and> (\<exists>resp. Do env (nat (MaxRetryPerDownloadBody destWriter)) (getRequest dl cid len) = Inr resp
             \<and> failures (fst (downloadChunk env destWriter dl cid len))
                 = [(''Downloading response body'',
                     ''unexpected status code: '' @ fmt_d (StatusCode resp))])"
proof -
  let ?m = "MaxRetryPerDownloadBody destWriter"
  let ?req = "getRequest dl cid len"
  from answers have fail: "\<forall>n. n \<le> nat ?m \<longrightarrow> \<not> isSuccess (Do env n ?req)"
    by (auto simp add: isSuccess_def)
  from answers obtain rsp where rsp: "Do env (nat ?m) ?req = Inr rsp"
    and code: "400 \<le> StatusCode rsp" "StatusCode rsp \<le> 499"
    by blast
  from budget have start: "int 0 \<le> ?m" by simp
  from retryLoop_all_fail [OF build fail start, of None None] rsp
  obtain evs where loop: "retryLoop env dl cid len ?m 0 None None = (evs, LoopLeft (Some rsp) None)"
    and evs: "doCalls evs = [0..<Suc (nat ?m)]" "failures evs = []" "enqueues evs = []"
    by auto
  from build have b0: "NewRequestWithContext env 0 = None" by simp
  from ranges b0 loop code
  have "downloadChunk env destWriter dl cid len =
          (EvLogChunkStatus HeaderResponse # evs
             @ [EvBodyClose,
                EvFailActiveDownload ''Downloading response body''
                  (''unexpected status code: '' @ fmt_d (StatusCode rsp))], Returned)"
    by (auto simp add: downloadChunk_def)
  with evs rsp show ?thesis
    by (simp add: doCalls_append failures_append enqueues_append)
qed

text \<open>
  The claim as it was stated fails: with a budget of 5 and a server that answers every
  request with 404, the task calls \<open>Do\<close> six times before it fails the download.
\<close>

theorem chunk_404_is_retried:
  "doCalls (fst (downloadChunk (serverEnv (\<lambda>n. Inr (statusResponse 404))) (sample_writer 5)
             (sample_downloader True) (sample_chunk 0) 100)) = [0, 1, 2, 3, 4, 5]
   \<and> failures (fst (downloadChunk (serverEnv (\<lambda>n. Inr (statusResponse 404))) (sample_writer 5)
             (sample_downloader True) (sample_chunk 0) 100))
       = [(''Downloading response body'', ''unexpected status code: 404'')]"
  by code_simp

theorem client_error_is_retried_witness:
  "doCalls (fst (downloadChunk (serverEnv (\<lambda>n. Inr (statusResponse 404))) (sample_writer 2)
             (sample_downloader True) (sample_chunk 0) 100)) = [0, 1, 2]
   \<and> failures (fst (downloadChunk (serverEnv (\<lambda>n. Inr (statusResponse 404))) (sample_writer 2)
             (sample_downloader True) (sample_chunk 0) 100))
       = [(''Downloading response body'', ''unexpected status code: 404'')]"
proof -
  let ?E = "serverEnv (\<lambda>n. Inr (statusResponse 404))"
  have budget: "0 \<le> MaxRetryPerDownloadBody (sample_writer 2)"
    "MaxRetryPerDownloadBody (sample_writer 2) < 9223372036854775807"
    by (simp_all add: sample_writer_def)
  have ranges: "hd_supportsRange (sample_downloader True) \<or> OffsetInFile (sample_chunk 0) \<le> 0"
    by (simp add: sample_downloader_def)
  have build: "\<forall>n. n \<le> nat (MaxRetryPerDownloadBody (sample_writer 2))
                 \<longrightarrow> NewRequestWithContext ?E n = None"
    by (simp add: serverEnv_def)
  have answers: "\<forall>n. n \<le> nat (MaxRetryPerDownloadBody (sample_writer 2))
                 \<longrightarrow> (\<exists>resp. Do ?E n (getRequest (sample_downloader True) (sample_chunk 0) 100)
                                = Inr resp
                        \<and> 400 \<le> StatusCode resp \<and> StatusCode resp \<le> 499)"
    by (simp add: serverEnv_def statusResponse_def)
  have upt: "[0..<Suc (nat (MaxRetryPerDownloadBody (sample_writer 2)))] = [0, 1, 2]"
    by (simp add: sample_writer_def upt_rec)
  from client_error_is_retried [OF budget ranges build answers] upt
  show ?thesis
    by (auto simp add: serverEnv_def statusResponse_def fmt_d_404)
qed

end
